theory Spec2Isabelle
  imports Main
begin

section \<open>Package buttons (internal/buttons/buttons.go)\<close>

text \<open>
  A button is a struct with the single field \<open>text\<close>. The three labels start with a
  pictogram, so they are given as the UTF-8 bytes of the Go string literals
  (a Go string is a byte sequence and \<open>switch\<close> compares it byte by byte).
\<close>

datatype Button = Button string

definition buttons_New :: "string \<Rightarrow> Button" where
  "buttons_New t = Button t"

fun Text :: "Button \<Rightarrow> string" where
  "Text (Button t) = t"

definition ApproveButton :: Button where
  "ApproveButton =
     buttons_New ([CHR 0xE2, CHR 0x9C, CHR 0x94, CHR 0xEF, CHR 0xB8, CHR 0x8F] @ '' Approve'')"

definition SkipButton :: Button where
  "SkipButton = buttons_New ([CHR 0xF0, CHR 0x9F, CHR 0x91, CHR 0x80] @ '' Skip'')"

definition RejectButton :: Button where
  "RejectButton = buttons_New ([CHR 0xE2, CHR 0x9D, CHR 0x8C] @ '' Reject'')"

section \<open>Package env (internal/env/env.go)\<close>

subsection \<open>The two standard-library functions \<open>New\<close> calls\<close>

text \<open>
  \<open>strings.Split(s, ",")\<close>: the pieces of \<open>s\<close> between the separators, in order; a string
  with k separators gives k + 1 pieces, and the empty string gives the one piece \<open>""\<close>.
  \<open>cur\<close> is the piece being read.
\<close>

fun Split_from :: "char \<Rightarrow> string \<Rightarrow> string \<Rightarrow> string list" where
  "Split_from sep cur [] = [cur]"
| "Split_from sep cur (c # cs) =
     (if c = sep then cur # Split_from sep [] cs else Split_from sep (cur @ [c]) cs)"

definition Split :: "string \<Rightarrow> char \<Rightarrow> string list" where
  "Split s sep = Split_from sep [] s"

text \<open>
  \<open>strings.Join(ps, ",")\<close>, the inverse direction: it is used only to state what
  \<open>Split\<close> returns on a comma-separated value.
\<close>

fun Join :: "string list \<Rightarrow> char \<Rightarrow> string" where
  "Join [] sep = []"
| "Join [p] sep = p"
| "Join (p # q # ps) sep = p @ sep # Join (q # ps) sep"

text \<open>
  \<open>strconv.ParseInt(id, 10, 64)\<close>: an optional sign, then at least one decimal digit and
  nothing else; the value must fit an int64. \<open>ParseUint_loop\<close> is the digit loop of
  \<open>strconv.ParseUint\<close> for base 10 and 64 bits, with the accumulator as a natural number
  and the overflow test written out.
\<close>

datatype NumError = ErrSyntax | ErrRange

definition isDigit :: "char \<Rightarrow> bool" where
  "isDigit c = (48 \<le> (of_char c :: nat) \<and> (of_char c :: nat) \<le> 57)"

definition digitVal :: "char \<Rightarrow> nat" where
  "digitVal c = of_char c - 48"

definition maxUint64 :: nat where
  "maxUint64 = 2 ^ 64 - 1"

fun ParseUint_loop :: "nat \<Rightarrow> string \<Rightarrow> NumError + nat" where
  "ParseUint_loop n [] = Inr n"
| "ParseUint_loop n (c # cs) =
     (if \<not> isDigit c then Inl ErrSyntax
      else if maxUint64 < n * 10 + digitVal c then Inl ErrRange
      else ParseUint_loop (n * 10 + digitVal c) cs)"

definition ParseUint :: "string \<Rightarrow> NumError + nat" where
  "ParseUint s = (if s = [] then Inl ErrSyntax else ParseUint_loop 0 s)"

definition ParseInt :: "string \<Rightarrow> NumError + int" where
  "ParseInt s =
     (if s = [] then Inl ErrSyntax
      else
        let neg = (hd s = CHR ''-'');
            s1 = (if hd s = CHR ''+'' \<or> hd s = CHR ''-'' then tl s else s);
            cutoff = (2 :: nat) ^ 63
        in case ParseUint s1 of
             Inl e \<Rightarrow> Inl e
           | Inr un \<Rightarrow>
               if \<not> neg \<and> cutoff \<le> un then Inl ErrRange
               else if neg \<and> cutoff < un then Inl ErrRange
               else Inr (if neg then - int un else int un))"

subsection \<open>\<open>env.New\<close>\<close>

record Env =
  TelegramToken :: string
  TelegramWhiteList :: "int list"
  AirtableApiKey :: string
  AirtableBaseId :: string
  AirtableTableName :: string

text \<open>\<open>log.Fatalf\<close> and \<open>log.Fatal\<close> end the process: \<open>New\<close> then returns nothing.\<close>

datatype Fatal = NotSet string | ParseFailed NumError

text \<open>
  The loop of lines 27 to 33: every piece is parsed and appended to \<open>whiteListIDs\<close>; the
  first piece that does not parse ends the process.
\<close>

fun whiteList_loop :: "string list \<Rightarrow> int list \<Rightarrow> NumError + int list" where
  "whiteList_loop [] whiteListIDs = Inr whiteListIDs"
| "whiteList_loop (idStr # ids) whiteListIDs =
     (case ParseInt idStr of
        Inl err \<Rightarrow> Inl err
      | Inr i \<Rightarrow> whiteList_loop ids (whiteListIDs @ [i]))"

text \<open>
  \<open>getenv\<close> is \<open>os.Getenv\<close> (the empty string for a variable that is not set).
  \<open>make([]int64, len(sWhiteListIDs))\<close> is a slice of that many zeros, to which the loop
  appends.
\<close>

definition env_New :: "(string \<Rightarrow> string) \<Rightarrow> Fatal + Env" where
  "env_New getenv =
     (if getenv ''TELEGRAM_TOKEN'' = [] then Inl (NotSet ''TELEGRAM_TOKEN'')
      else
        let sWhiteListIDs = Split (getenv ''TELEGRAM_WHITELIST'') (CHR '','')
        in case whiteList_loop sWhiteListIDs (replicate (length sWhiteListIDs) 0) of
             Inl err \<Rightarrow> Inl (ParseFailed err)
           | Inr whiteListIDs \<Rightarrow>
               if getenv ''AIRTABLE_API_KEY'' = [] then Inl (NotSet ''AIRTABLE_API_KEY'')
               else if getenv ''AIRTABLE_BASE_ID'' = [] then Inl (NotSet ''AIRTABLE_BASE_ID'')
               else if getenv ''AIRTABLE_TABLE_NAME'' = []
                 then Inl (NotSet ''AIRTABLE_TABLE_NAME'')
               else Inr \<lparr>TelegramToken = getenv ''TELEGRAM_TOKEN'',
                         TelegramWhiteList = whiteListIDs,
                         AirtableApiKey = getenv ''AIRTABLE_API_KEY'',
                         AirtableBaseId = getenv ''AIRTABLE_BASE_ID'',
                         AirtableTableName = getenv ''AIRTABLE_TABLE_NAME''\<rparr>)"

section \<open>Package helpers\<close>

text \<open>
  Modelled from the spec: \<open>helpers.IDContains\<close> (package internal/helpers is not among the
  sources; main.go line 71 calls it). The spec: "Only events from an allow-listed set of
  sender identities are processed", so it is membership of the identity in the list.
\<close>

definition IDContains :: "int list \<Rightarrow> int \<Rightarrow> bool" where
  "IDContains ids i = (i \<in> set ids)"

section \<open>The collaborators of main.go\<close>

subsection \<open>Backing-store records\<close>

text \<open>
  \<open>airtable.Record\<close>: an identifier and \<open>Fields map[string]any\<close>. A field value is a
  string, a boolean or something else (number, list, nil); \<open>OtherVal\<close> stands for every
  dynamic type the program never asserts.
\<close>

datatype any = StringVal string | BoolVal bool | OtherVal

record Record =
  ID :: string
  Fields :: "string \<rightharpoonup> any"

subsection \<open>The skip cache\<close>

text \<open>
  \<open>ttlcache.Cache[string, bool]\<close> of github.com/jellydator/ttlcache/v3, created with a
  time to live of 24 hours (lines 57 to 59). The library is a dependency; it is modelled
  by what it documents: \<open>Set\<close> with \<open>DefaultTTL\<close> stores the value with the expiry
  "now + the cache's TTL", replacing an older item of the key; an item is expired once the
  clock is after its expiry; the sweeper started by \<open>cache.Start()\<close> (line 61) deletes
  expired items. The clock is a number of nanoseconds, read once per handled update, and
  the sweep is taken as immediate: \<open>Has\<close> reports exactly the items that are not expired.
\<close>

type_synonym Cache = "string \<rightharpoonup> (bool \<times> nat)"

definition Hour :: nat where
  "Hour = 3600 * 10 ^ 9"

definition TTL :: nat where
  "TTL = 24 * Hour"

definition cache_Has :: "Cache \<Rightarrow> nat \<Rightarrow> string \<Rightarrow> bool" where
  "cache_Has c now k = (case c k of None \<Rightarrow> False | Some (v, expiresAt) \<Rightarrow> now \<le> expiresAt)"

definition cache_Set :: "Cache \<Rightarrow> nat \<Rightarrow> string \<Rightarrow> bool \<Rightarrow> Cache" where
  "cache_Set c now k v = c(k \<mapsto> (v, now + TTL))"

subsection \<open>Inbound updates\<close>

text \<open>
  \<open>tgbotapi.Message\<close>: the chat it came from, its text, and its command:
  \<open>MsgCommand = None\<close> when \<open>IsCommand()\<close> is false, \<open>Some c\<close> when it is true and
  \<open>Command()\<close> is \<open>c\<close>.
  \<open>tgbotapi.Update\<close>: \<open>Message\<close> is a pointer, nil for an update that is no new message
  (an edited message, a channel post, a callback, a membership change ...);
  \<open>OtherChat\<close> is the chat of such an update, when it has one.
\<close>

record Message =
  ChatID :: int
  MsgText :: string
  MsgCommand :: "string option"

record Update =
  UpdMessage :: "Message option"
  OtherChat :: "int option"

text \<open>\<open>Update.FromChat()\<close>: the chat of the message, else of the other content, else nil.\<close>

definition FromChat :: "Update \<Rightarrow> int option" where
  "FromChat u = (case UpdMessage u of Some m \<Rightarrow> Some (ChatID m) | None \<Rightarrow> OtherChat u)"

subsection \<open>Outbound messages, log lines and calls\<close>

text \<open>
  The texts main.go assigns to \<open>msg.Text\<close>, one constructor per literal:
  \<open>NoText\<close> "" (line 77), \<open>Hi\<close> (85), \<open>PostText title guid\<close> (103, the two formatted
  field values), \<open>HelpText\<close> (106), \<open>StatusText\<close> (108), \<open>UnknownCommand\<close> (110),
  \<open>Approved\<close> (116), \<open>Rejected\<close> (124), \<open>Skipped\<close> (132), \<open>ErrorText err\<close> (120 and 128),
  \<open>Unsupported\<close> (136, "button not supported").
\<close>

datatype ReplyText =
    NoText | Hi | PostText "any option" "any option" | HelpText | StatusText
  | UnknownCommand | Approved | Rejected | Skipped | ErrorText string | Unsupported

record MessageConfig =
  ToChat :: int
  ReplyTxt :: ReplyText
  ReplyMarkup :: bool

definition NewMessage :: "int \<Rightarrow> MessageConfig" where
  "NewMessage chat = \<lparr>ToChat = chat, ReplyTxt = NoText, ReplyMarkup = False\<rparr>"

datatype LogLine =
    UnknownUser Update | GotCommand string | GotText string
  | ErrorApproving string | ErrorRejecting string | PanicLine string

text \<open>
  What one handled update does to the outside, in order: a log line, the query of the
  backing store (lines 87 to 92), a partial update of a record with its field map
  (lines 117 and 125), a message sent to the chat (line 142).
\<close>

datatype Effect =
    Log LogLine
  | GetRecords
  | UpdateRecordPartial Record "string \<rightharpoonup> any"
  | Send MessageConfig

text \<open>
  What the collaborators answer while one update is handled: the clock, the result of
  the query, the error of the partial update and the error of \<open>bot.Send\<close> (None: no error).
\<close>

record World =
  now :: nat
  GetRecords_result :: "string + Record list"
  UpdateRecordPartial_err :: "string option"
  Send_err :: "string option"

section \<open>main.go: the loop body\<close>

record State =
  currentPost :: "Record option"
  cache :: Cache

text \<open>
  A Go panic that nothing recovers ends the process: a nil pointer dereference, a failed
  type assertion \<open>.(string)\<close>, or \<open>log.Panic\<close>. \<open>Ok\<close> carries the value the code goes on
  with; both carry the effects so far.
\<close>

datatype PanicReason = NilDereference | TypeAssertion | LogPanic string

datatype 'a result = Panic PanicReason "Effect list" | Ok 'a "Effect list"

fun effects :: "'a result \<Rightarrow> Effect list" where
  "effects (Panic p es) = es"
| "effects (Ok x es) = es"

text \<open>The calls to the backing store, and all the calls that leave the process.\<close>

fun isStoreCall :: "Effect \<Rightarrow> bool" where
  "isStoreCall GetRecords = True"
| "isStoreCall (UpdateRecordPartial r fs) = True"
| "isStoreCall e = False"

fun isOutbound :: "Effect \<Rightarrow> bool" where
  "isOutbound (Log l) = False"
| "isOutbound e = True"

definition after :: "Effect list \<Rightarrow> 'a result \<Rightarrow> 'a result" where
  "after es r = (case r of Panic p es' \<Rightarrow> Panic p (es @ es') | Ok x es' \<Rightarrow> Ok x (es @ es'))"

text \<open>
  Lines 96 to 102: the scan of the returned records. The result is the record assigned
  to \<open>currentPost\<close> at line 100, or None when the loop ends without assigning.
  \<open>record.Fields["guid"].(string)\<close> panics on a record whose guid is missing or no string.
\<close>

fun selectPost :: "Cache \<Rightarrow> nat \<Rightarrow> Record list \<Rightarrow> PanicReason + Record option" where
  "selectPost c t [] = Inr None"
| "selectPost c t (r # rs) =
     (case Fields r ''guid'' of
        Some (StringVal g) \<Rightarrow> if cache_Has c t g then selectPost c t rs else Inr (Some r)
      | _ \<Rightarrow> Inl TypeAssertion)"

text \<open>
  Lines 87 to 104, the case "getpost". A failed query is \<open>log.Panic\<close> (line 94). When the
  loop assigned nothing, \<open>currentPost\<close> is what it was before, and line 103 dereferences it.
\<close>

definition getpost :: "State \<Rightarrow> MessageConfig \<Rightarrow> World \<Rightarrow> (State \<times> MessageConfig) result" where
  "getpost st msg w =
     (case GetRecords_result w of
        Inl err \<Rightarrow> Panic (LogPanic err) [GetRecords, Log (PanicLine err)]
      | Inr records \<Rightarrow>
          (case selectPost (cache st) (now w) records of
             Inl p \<Rightarrow> Panic p [GetRecords]
           | Inr selected \<Rightarrow>
               (case (case selected of Some r \<Rightarrow> Some r | None \<Rightarrow> currentPost st) of
                  None \<Rightarrow> Panic NilDereference [GetRecords]
                | Some post \<Rightarrow>
                    Ok (st\<lparr>currentPost := Some post\<rparr>,
                        msg\<lparr>ReplyTxt := PostText (Fields post ''Title'') (Fields post ''guid''),
                            ReplyMarkup := True\<rparr>)
                       [GetRecords])))"

text \<open>Lines 83 to 111, the switch on the command.\<close>

definition handleCommand ::
  "State \<Rightarrow> MessageConfig \<Rightarrow> string \<Rightarrow> World \<Rightarrow> (State \<times> MessageConfig) result" where
  "handleCommand st msg cmd w =
     (if cmd = ''start'' then Ok (st, msg\<lparr>ReplyTxt := Hi\<rparr>) []
      else if cmd = ''getpost'' then getpost st msg w
      else if cmd = ''help'' then Ok (st, msg\<lparr>ReplyTxt := HelpText\<rparr>) []
      else if cmd = ''status'' then Ok (st, msg\<lparr>ReplyTxt := StatusText\<rparr>) []
      else Ok (st, msg\<lparr>ReplyTxt := UnknownCommand\<rparr>) [])"

text \<open>The field maps of lines 117 and 125.\<close>

definition approveFields :: "string \<rightharpoonup> any" where
  "approveFields =
     [''IsApproved'' \<mapsto> BoolVal True, ''IsRejected'' \<mapsto> BoolVal False,
      ''ToInvistigate'' \<mapsto> BoolVal False]"

definition rejectFields :: "string \<rightharpoonup> any" where
  "rejectFields =
     [''IsRejected'' \<mapsto> BoolVal True, ''IsApproved'' \<mapsto> BoolVal False,
      ''ToInvistigate'' \<mapsto> BoolVal False]"

text \<open>
  Lines 114 to 138, the switch on the text. \<open>currentPost.UpdateRecordPartial\<close> on a nil
  \<open>currentPost\<close> dereferences it (the method reads the record's client and identifier), and
  so does \<open>currentPost.Fields\<close> of line 133.
\<close>

definition handleText ::
  "State \<Rightarrow> MessageConfig \<Rightarrow> string \<Rightarrow> World \<Rightarrow> (State \<times> MessageConfig) result" where
  "handleText st msg txt w =
     (if txt = Text ApproveButton then
        (case currentPost st of
           None \<Rightarrow> Panic NilDereference []
         | Some post \<Rightarrow>
             (case UpdateRecordPartial_err w of
                None \<Rightarrow> Ok (st, msg\<lparr>ReplyTxt := Approved\<rparr>) [UpdateRecordPartial post approveFields]
              | Some err \<Rightarrow>
                  Ok (st\<lparr>currentPost := None\<rparr>, msg\<lparr>ReplyTxt := ErrorText err\<rparr>)
                     [UpdateRecordPartial post approveFields, Log (ErrorApproving err)]))
      else if txt = Text RejectButton then
        (case currentPost st of
           None \<Rightarrow> Panic NilDereference []
         | Some post \<Rightarrow>
             (case UpdateRecordPartial_err w of
                None \<Rightarrow> Ok (st, msg\<lparr>ReplyTxt := Rejected\<rparr>) [UpdateRecordPartial post rejectFields]
              | Some err \<Rightarrow>
                  Ok (st\<lparr>currentPost := None\<rparr>, msg\<lparr>ReplyTxt := ErrorText err\<rparr>)
                     [UpdateRecordPartial post rejectFields, Log (ErrorRejecting err)]))
      else if txt = Text SkipButton then
        (case currentPost st of
           None \<Rightarrow> Panic NilDereference []
         | Some post \<Rightarrow>
             (case Fields post ''guid'' of
                Some (StringVal g) \<Rightarrow>
                  Ok (st\<lparr>cache := cache_Set (cache st) (now w) g True, currentPost := None\<rparr>,
                      msg\<lparr>ReplyTxt := Skipped\<rparr>) []
              | _ \<Rightarrow> Panic TypeAssertion []))
      else Ok (st\<lparr>currentPost := None\<rparr>, msg\<lparr>ReplyTxt := Unsupported\<rparr>) [])"

text \<open>Lines 142 to 144: the message is sent; a failed send is \<open>log.Panic\<close>.\<close>

definition send :: "World \<Rightarrow> (State \<times> MessageConfig) result \<Rightarrow> State result" where
  "send w r =
     (case r of
        Panic p es \<Rightarrow> Panic p es
      | Ok sm es \<Rightarrow>
          (case Send_err w of
             None \<Rightarrow> Ok (fst sm) (es @ [Send (snd sm)])
           | Some err \<Rightarrow> Panic (LogPanic err) (es @ [Send (snd sm), Log (PanicLine err)])))"

text \<open>
  Lines 71 to 145, the body of the loop for one update. \<open>update.FromChat().ID\<close> (line 71)
  and \<open>update.Message.Chat.ID\<close> (line 77) dereference a pointer that may be nil.
\<close>

definition handleUpdate :: "int list \<Rightarrow> State \<Rightarrow> Update \<Rightarrow> World \<Rightarrow> State result" where
  "handleUpdate whiteList st update w =
     (case FromChat update of
        None \<Rightarrow> Panic NilDereference []
      | Some chat \<Rightarrow>
          if \<not> IDContains whiteList chat then Ok st [Log (UnknownUser update)]
          else
            (case UpdMessage update of
               None \<Rightarrow> Panic NilDereference []
             | Some m \<Rightarrow>
                 (case MsgCommand m of
                    Some cmd \<Rightarrow>
                      send w (after [Log (GotCommand cmd)]
                                (handleCommand st (NewMessage (ChatID m)) cmd w))
                  | None \<Rightarrow>
                      send w (after [Log (GotText (MsgText m))]
                                (handleText st (NewMessage (ChatID m)) (MsgText m) w)))))"

text \<open>
  Line 70, \<open>for update := range updates\<close>: the updates are handled one after the other,
  each with what the collaborators answer to it; a panic ends the loop. A finite list of
  updates is a prefix of the stream.
\<close>

fun mainLoop :: "int list \<Rightarrow> State \<Rightarrow> (Update \<times> World) list \<Rightarrow> State result" where
  "mainLoop whiteList st [] = Ok st []"
| "mainLoop whiteList st (uw # rest) =
     (case handleUpdate whiteList st (fst uw) (snd uw) of
        Panic p es \<Rightarrow> Panic p es
      | Ok st' es \<Rightarrow> after es (mainLoop whiteList st' rest))"

text \<open>The state main.go starts the loop with (lines 57 to 68).\<close>

definition initialState :: State where
  "initialState = \<lparr>currentPost = None, cache = Map.empty\<rparr>"

text \<open>
  The identifier of a record as line 133 reads it (None where the type assertion fails),
  and the property of every state the loop reaches: a pending candidate was selected by
  the scan, so its guid is a string.
\<close>

definition guidOf :: "Record \<Rightarrow> string option" where
  "guidOf r = (case Fields r ''guid'' of Some (StringVal g) \<Rightarrow> Some g | _ \<Rightarrow> None)"

definition pendingHasGuid :: "State \<Rightarrow> bool" where
  "pendingHasGuid st = (case currentPost st of None \<Rightarrow> True | Some post \<Rightarrow> guidOf post \<noteq> None)"

text \<open>The pending candidate has the identifier \<open>g\<close>.\<close>

definition holdsGuid :: "State \<Rightarrow> string \<Rightarrow> bool" where
  "holdsGuid st g = (case currentPost st of None \<Rightarrow> False | Some post \<Rightarrow> guidOf post = Some g)"

section \<open>Concrete inputs\<close>

text \<open>
  An update that is a plain text and one that is a command, from a given chat; collaborators
  that answer without error at a given time; two records as the query returns them.
\<close>

definition textUpdate :: "int \<Rightarrow> string \<Rightarrow> Update" where
  "textUpdate chat txt =
     \<lparr>UpdMessage = Some \<lparr>ChatID = chat, MsgText = txt, MsgCommand = None\<rparr>, OtherChat = None\<rparr>"

definition commandUpdate :: "int \<Rightarrow> string \<Rightarrow> Update" where
  "commandUpdate chat cmd =
     \<lparr>UpdMessage = Some \<lparr>ChatID = chat, MsgText = CHR ''/'' # cmd, MsgCommand = Some cmd\<rparr>,
      OtherChat = None\<rparr>"

definition quietWorld :: "nat \<Rightarrow> Record list \<Rightarrow> World" where
  "quietWorld t records =
     \<lparr>now = t, GetRecords_result = Inr records, UpdateRecordPartial_err = None, Send_err = None\<rparr>"

definition post1 :: Record where
  "post1 = \<lparr>ID = ''rec1'', Fields = [''Title'' \<mapsto> StringVal ''First'', ''guid'' \<mapsto> StringVal ''g1'']\<rparr>"

definition post2 :: Record where
  "post2 = \<lparr>ID = ''rec2'', Fields = [''Title'' \<mapsto> StringVal ''Second'', ''guid'' \<mapsto> StringVal ''g2'']\<rparr>"

text \<open>
  An update that is no message and has no chat (an inline query, for one): \<open>Message\<close> is
  nil and \<open>FromChat()\<close> returns nil. Any user can cause one.
\<close>

definition chatlessUpdate :: Update where
  "chatlessUpdate = \<lparr>UpdMessage = None, OtherChat = None\<rparr>"

text \<open>An environment with the allow-list "12,-7" and every other variable set.\<close>

definition getenv1 :: "string \<Rightarrow> string" where
  "getenv1 v = (if v = ''TELEGRAM_WHITELIST'' then ''12,-7'' else ''x'')"

section \<open>Basic facts\<close>

lemma button_texts:
  "Text ApproveButton \<noteq> Text RejectButton" "Text ApproveButton \<noteq> Text SkipButton"
  "Text RejectButton \<noteq> Text SkipButton" "Text RejectButton \<noteq> Text ApproveButton"
  "Text SkipButton \<noteq> Text ApproveButton" "Text SkipButton \<noteq> Text RejectButton"
  by (simp_all add: ApproveButton_def RejectButton_def SkipButton_def buttons_New_def)

lemmas handle_defs = handleUpdate_def FromChat_def send_def after_def handleText_def
  handleCommand_def getpost_def NewMessage_def

section \<open>The allow-list gate\<close>

text \<open>
  An update whose chat identity is not in the allow-list is logged and dropped: the loop
  body returns the state it was given, and its only effect is the log line, so no message
  is sent and the backing store is not called.
\<close>

theorem unauthorized_update_dropped:
  assumes "FromChat update = Some chat" and "\<not> IDContains whiteList chat"
  shows "handleUpdate whiteList st update w = Ok st [Log (UnknownUser update)]
     \<and> filter isOutbound (effects (handleUpdate whiteList st update w)) = []"
  using assms by (simp add: handleUpdate_def)

theorem unauthorized_update_dropped_witness:
  "FromChat (textUpdate 8 (Text ApproveButton)) = Some 8 \<and> \<not> IDContains [0, 7] 8
   \<and> handleUpdate [0, 7] \<lparr>currentPost = Some post1, cache = Map.empty\<rparr>
        (textUpdate 8 (Text ApproveButton)) (quietWorld 5 [])
      = Ok \<lparr>currentPost = Some post1, cache = Map.empty\<rparr>
          [Log (UnknownUser (textUpdate 8 (Text ApproveButton)))]"
  using unauthorized_update_dropped [of "textUpdate 8 (Text ApproveButton)" 8 "[0, 7]"
      "\<lparr>currentPost = Some post1, cache = Map.empty\<rparr>" "quietWorld 5 []"]
  by (simp add: FromChat_def textUpdate_def IDContains_def)

text \<open>
  C7. Every update from a sender outside the allow-list should be logged and dropped,
  with the state as it was. The loop body does so when the update has a chat. On an
  update that has none, \<open>update.FromChat().ID\<close> of line 71 dereferences nil before the
  allow-list is consulted: nothing is logged, the process ends in a panic, and the
  pending candidate and the updates that follow are lost with it.
\<close>

theorem chatless_update_panics:
  "FromChat chatlessUpdate = None
   \<and> handleUpdate [7] \<lparr>currentPost = Some post1, cache = Map.empty\<rparr> chatlessUpdate
        (quietWorld 0 [])
     = Panic NilDereference []
   \<and> mainLoop [7] \<lparr>currentPost = Some post1, cache = Map.empty\<rparr>
        [(chatlessUpdate, quietWorld 0 []),
         (textUpdate 7 (Text ApproveButton), quietWorld 1 [])]
     = Panic NilDereference []"
  by (simp add: handleUpdate_def FromChat_def chatlessUpdate_def)

section \<open>Decisions and fetches without a candidate\<close>

text \<open>
  The default branch (lines 135 to 137) with an empty slot: the reply is "unsupported",
  the backing store is not called and the state is unchanged.
\<close>

lemma unrecognized_text_without_candidate:
  assumes "UpdMessage update = Some m" and "IDContains whiteList (ChatID m)"
    and "MsgCommand m = None"
    and "MsgText m \<noteq> Text ApproveButton" and "MsgText m \<noteq> Text RejectButton"
    and "MsgText m \<noteq> Text SkipButton"
    and "currentPost st = None" and "Send_err w = None"
  shows "handleUpdate whiteList st update w
           = Ok st [Log (GotText (MsgText m)),
                    Send \<lparr>ToChat = ChatID m, ReplyTxt = Unsupported, ReplyMarkup = False\<rparr>]"
proof -
  from assms(7) have "st\<lparr>currentPost := None\<rparr> = st" by (cases st) simp
  with assms show ?thesis by (simp add: handle_defs)
qed

text \<open>
  C1. A decision received while no candidate is pending should be answered "unsupported"
  without touching the backing store. The loop body does so for a text that is no button
  label only: on each of the three button labels it dereferences the nil \<open>currentPost\<close>
  and the process ends in a panic, before any message is sent.
\<close>

theorem decision_without_candidate_panics:
  "handleUpdate [7] initialState (textUpdate 7 (Text SkipButton)) (quietWorld 0 [])
     = Panic NilDereference [Log (GotText (Text SkipButton))]
   \<and> handleUpdate [7] initialState (textUpdate 7 (Text ApproveButton)) (quietWorld 0 [])
     = Panic NilDereference [Log (GotText (Text ApproveButton))]
   \<and> handleUpdate [7] initialState (textUpdate 7 (Text RejectButton)) (quietWorld 0 [])
     = Panic NilDereference [Log (GotText (Text RejectButton))]"
  by (simp add: handle_defs textUpdate_def quietWorld_def initialState_def IDContains_def
        button_texts)

text \<open>
  C2. A fetch whose query succeeds and returns no record outside the skip cache should
  answer "none available" and leave the slot empty. With an empty slot the loop body
  panics at line 103 instead, for an empty result and for a result whose only record is
  in the skip cache; it sends nothing.
\<close>

theorem getpost_without_candidate_panics:
  "handleUpdate [7] initialState (commandUpdate 7 ''getpost'') (quietWorld 0 [])
     = Panic NilDereference [Log (GotCommand ''getpost''), GetRecords]
   \<and> handleUpdate [7] \<lparr>currentPost = None, cache = [''g1'' \<mapsto> (True, 100)]\<rparr>
        (commandUpdate 7 ''getpost'') (quietWorld 50 [post1])
     = Panic NilDereference [Log (GotCommand ''getpost''), GetRecords]"
  by (simp add: handle_defs commandUpdate_def quietWorld_def initialState_def IDContains_def
        cache_Has_def post1_def)

section \<open>The slot after a decision\<close>




section \<open>Failures of the backing store\<close>

text \<open>
  Against C4 as stated: the query of a fetch fails. Line 94 is \<open>log.Panic(err)\<close>: the
  error is logged and the process ends; no message is sent.
\<close>

theorem query_failure_panics:
  "handleUpdate [7] \<lparr>currentPost = Some post1, cache = Map.empty\<rparr> (commandUpdate 7 ''getpost'')
      \<lparr>now = 0, GetRecords_result = Inl ''timeout'', UpdateRecordPartial_err = None,
        Send_err = None\<rparr>
     = Panic (LogPanic ''timeout'')
         [Log (GotCommand ''getpost''), GetRecords, Log (PanicLine ''timeout'')]"
  by (simp add: handle_defs commandUpdate_def IDContains_def)

text \<open>
  C4, amended. A failed partial update of an approve or a reject is logged, sent to the
  operator as the error text, and clears the pending candidate, and the loop goes on
  (the message being sent without error). A failed query of a fetch is logged and ends
  the process by \<open>log.Panic\<close>, with no message sent.
\<close>

theorem store_failure_handling:
  assumes "UpdMessage update = Some m" and "IDContains whiteList (ChatID m)"
  shows "(MsgCommand m = None \<and> currentPost st = Some post
            \<and> UpdateRecordPartial_err w = Some err \<and> Send_err w = None
          \<longrightarrow> (MsgText m = Text ApproveButton \<longrightarrow>
                 handleUpdate whiteList st update w
                   = Ok (st\<lparr>currentPost := None\<rparr>)
                       [Log (GotText (MsgText m)), UpdateRecordPartial post approveFields,
                        Log (ErrorApproving err),
                        Send \<lparr>ToChat = ChatID m, ReplyTxt = ErrorText err, ReplyMarkup = False\<rparr>])
            \<and> (MsgText m = Text RejectButton \<longrightarrow>
                 handleUpdate whiteList st update w
                   = Ok (st\<lparr>currentPost := None\<rparr>)
                       [Log (GotText (MsgText m)), UpdateRecordPartial post rejectFields,
                        Log (ErrorRejecting err),
                        Send \<lparr>ToChat = ChatID m, ReplyTxt = ErrorText err, ReplyMarkup = False\<rparr>]))
       \<and> (MsgCommand m = Some ''getpost'' \<and> GetRecords_result w = Inl err
          \<longrightarrow> handleUpdate whiteList st update w
                = Panic (LogPanic err)
                    [Log (GotCommand ''getpost''), GetRecords, Log (PanicLine err)])"
  using assms by (simp add: handle_defs button_texts)

theorem store_failure_handling_witness:
  "UpdMessage (textUpdate 7 (Text RejectButton))
      = Some \<lparr>ChatID = 7, MsgText = Text RejectButton, MsgCommand = None\<rparr>
   \<and> UpdMessage (commandUpdate 7 ''getpost'')
      = Some \<lparr>ChatID = 7, MsgText = ''/getpost'', MsgCommand = Some ''getpost''\<rparr>
   \<and> IDContains [7] 7
   \<and> handleUpdate [7] \<lparr>currentPost = Some post1, cache = Map.empty\<rparr>
        (textUpdate 7 (Text RejectButton))
        \<lparr>now = 0, GetRecords_result = Inr [], UpdateRecordPartial_err = Some ''denied'',
          Send_err = None\<rparr>
      = Ok \<lparr>currentPost = None, cache = Map.empty\<rparr>
          [Log (GotText (Text RejectButton)), UpdateRecordPartial post1 rejectFields,
           Log (ErrorRejecting ''denied''),
           Send \<lparr>ToChat = 7, ReplyTxt = ErrorText ''denied'', ReplyMarkup = False\<rparr>]
   \<and> handleUpdate [7] \<lparr>currentPost = Some post1, cache = Map.empty\<rparr>
        (commandUpdate 7 ''getpost'')
        \<lparr>now = 0, GetRecords_result = Inl ''denied'', UpdateRecordPartial_err = None,
          Send_err = None\<rparr>
      = Panic (LogPanic ''denied'')
          [Log (GotCommand ''getpost''), GetRecords, Log (PanicLine ''denied'')]"
proof -
  let ?mr = "\<lparr>ChatID = 7, MsgText = Text RejectButton, MsgCommand = None\<rparr>"
  let ?mg = "\<lparr>ChatID = 7, MsgText = ''/getpost'', MsgCommand = Some ''getpost''\<rparr>"
  let ?st = "\<lparr>currentPost = Some post1, cache = Map.empty\<rparr>"
  let ?wu = "\<lparr>now = 0, GetRecords_result = Inr [], UpdateRecordPartial_err = Some ''denied'',
          Send_err = None\<rparr>"
  let ?wq = "\<lparr>now = 0, GetRecords_result = Inl ''denied'', UpdateRecordPartial_err = None,
          Send_err = None\<rparr>"
  have r1: "UpdMessage (textUpdate 7 (Text RejectButton)) = Some ?mr"
    by (simp add: textUpdate_def)
  have g1: "UpdMessage (commandUpdate 7 ''getpost'') = Some ?mg"
    by (simp add: commandUpdate_def)
  have r2: "IDContains [7] (ChatID ?mr)" and g2: "IDContains [7] (ChatID ?mg)"
    by (simp_all add: IDContains_def)
  have A: "handleUpdate [7] ?st (textUpdate 7 (Text RejectButton)) ?wu
      = Ok \<lparr>currentPost = None, cache = Map.empty\<rparr>
          [Log (GotText (Text RejectButton)), UpdateRecordPartial post1 rejectFields,
           Log (ErrorRejecting ''denied''),
           Send \<lparr>ToChat = 7, ReplyTxt = ErrorText ''denied'', ReplyMarkup = False\<rparr>]"
    using store_failure_handling [OF r1 r2, where st = ?st and post = post1 and w = ?wu
        and err = "''denied''"]
    by (simp add: button_texts)
  have B: "handleUpdate [7] ?st (commandUpdate 7 ''getpost'') ?wq
      = Panic (LogPanic ''denied'')
          [Log (GotCommand ''getpost''), GetRecords, Log (PanicLine ''denied'')]"
    using store_failure_handling [OF g1 g2, where st = ?st and post = post1 and w = ?wq
        and err = "''denied''"]
    by simp
  have i: "IDContains [7] 7" using r2 by simp
  from r1 g1 i A B show ?thesis by (intro conjI)
qed

section \<open>The partial update of a decision\<close>

text \<open>
  C6. With a pending candidate, an approve calls the backing store exactly once, with the
  partial update of the candidate by IsApproved = true, IsRejected = false,
  ToInvistigate = false, and a reject with IsApproved = false, IsRejected = true,
  ToInvistigate = false; the field map has these three keys and no other.
\<close>

theorem decision_update_fields:
  assumes "UpdMessage update = Some m" and "IDContains whiteList (ChatID m)"
    and "MsgCommand m = None" and "currentPost st = Some post"
  shows "(MsgText m = Text ApproveButton \<longrightarrow>
            filter isStoreCall (effects (handleUpdate whiteList st update w))
              = [UpdateRecordPartial post approveFields])
       \<and> (MsgText m = Text RejectButton \<longrightarrow>
            filter isStoreCall (effects (handleUpdate whiteList st update w))
              = [UpdateRecordPartial post rejectFields])
       \<and> dom approveFields = {''IsApproved'', ''IsRejected'', ''ToInvistigate''}
       \<and> approveFields ''IsApproved'' = Some (BoolVal True)
       \<and> approveFields ''IsRejected'' = Some (BoolVal False)
       \<and> approveFields ''ToInvistigate'' = Some (BoolVal False)
       \<and> dom rejectFields = {''IsApproved'', ''IsRejected'', ''ToInvistigate''}
       \<and> rejectFields ''IsApproved'' = Some (BoolVal False)
       \<and> rejectFields ''IsRejected'' = Some (BoolVal True)
       \<and> rejectFields ''ToInvistigate'' = Some (BoolVal False)"
  using assms
  by (auto simp add: handle_defs button_texts approveFields_def rejectFields_def
        split: option.splits)

theorem decision_update_fields_witness:
  "UpdMessage (textUpdate 7 (Text ApproveButton))
      = Some \<lparr>ChatID = 7, MsgText = Text ApproveButton, MsgCommand = None\<rparr>
   \<and> UpdMessage (textUpdate 7 (Text RejectButton))
      = Some \<lparr>ChatID = 7, MsgText = Text RejectButton, MsgCommand = None\<rparr>
   \<and> IDContains [7] 7
   \<and> filter isStoreCall (effects (handleUpdate [7] \<lparr>currentPost = Some post1, cache = Map.empty\<rparr>
        (textUpdate 7 (Text ApproveButton)) (quietWorld 0 [])))
      = [UpdateRecordPartial post1 approveFields]
   \<and> filter isStoreCall (effects (handleUpdate [7] \<lparr>currentPost = Some post1, cache = Map.empty\<rparr>
        (textUpdate 7 (Text RejectButton)) (quietWorld 0 [])))
      = [UpdateRecordPartial post1 rejectFields]"
proof -
  let ?ma = "\<lparr>ChatID = 7, MsgText = Text ApproveButton, MsgCommand = None\<rparr>"
  let ?mr = "\<lparr>ChatID = 7, MsgText = Text RejectButton, MsgCommand = None\<rparr>"
  let ?st = "\<lparr>currentPost = Some post1, cache = Map.empty\<rparr>"
  have a1: "UpdMessage (textUpdate 7 (Text ApproveButton)) = Some ?ma"
    by (simp add: textUpdate_def)
  have r1: "UpdMessage (textUpdate 7 (Text RejectButton)) = Some ?mr"
    by (simp add: textUpdate_def)
  have a2: "IDContains [7] (ChatID ?ma)" and r2: "IDContains [7] (ChatID ?mr)"
    by (simp_all add: IDContains_def)
  have a3: "MsgCommand ?ma = None" and r3: "MsgCommand ?mr = None" by simp_all
  have h4: "currentPost ?st = Some post1" by simp
  have A: "filter isStoreCall (effects (handleUpdate [7] ?st
        (textUpdate 7 (Text ApproveButton)) (quietWorld 0 [])))
      = [UpdateRecordPartial post1 approveFields]"
    using decision_update_fields [OF a1 a2 a3 h4, of "quietWorld 0 []"] by simp
  have B: "filter isStoreCall (effects (handleUpdate [7] ?st
        (textUpdate 7 (Text RejectButton)) (quietWorld 0 [])))
      = [UpdateRecordPartial post1 rejectFields]"
    using decision_update_fields [OF r1 r2 r3 h4, of "quietWorld 0 []"] by simp
  have i: "IDContains [7] 7" using a2 by simp
  from a1 r1 i A B show ?thesis by (intro conjI)
qed

section \<open>The candidate a fetch selects\<close>

lemma selectPost_Some:
  "selectPost c t rs = Inr (Some r) \<Longrightarrow>
     \<exists>pre post g. rs = pre @ r # post \<and> guidOf r = Some g \<and> \<not> cache_Has c t g
       \<and> (\<forall>q \<in> set pre. \<exists>h. guidOf q = Some h \<and> cache_Has c t h)"
proof (induction rs)
  case Nil
  then show ?case by simp
next
  case (Cons a rs)
  show ?case
  proof (cases "guidOf a")
    case None
    with Cons.prems show ?thesis
      by (auto simp add: guidOf_def split: option.splits any.splits)
  next
    case (Some ga)
    then have fa: "Fields a ''guid'' = Some (StringVal ga)"
      by (auto simp add: guidOf_def split: option.splits any.splits)
    show ?thesis
    proof (cases "cache_Has c t ga")
      case True
      with Cons.prems fa have "selectPost c t rs = Inr (Some r)" by simp
      from Cons.IH [OF this] obtain pre post g where
        "rs = pre @ r # post" "guidOf r = Some g" "\<not> cache_Has c t g"
        "\<forall>q \<in> set pre. \<exists>h. guidOf q = Some h \<and> cache_Has c t h" by blast
      with True Some have "a # rs = (a # pre) @ r # post \<and> guidOf r = Some g \<and> \<not> cache_Has c t g
        \<and> (\<forall>q \<in> set (a # pre). \<exists>h. guidOf q = Some h \<and> cache_Has c t h)" by simp
      then show ?thesis by blast
    next
      case False
      with Cons.prems fa have "r = a" by simp
      with False Some have "a # rs = [] @ r # rs \<and> guidOf r = Some ga \<and> \<not> cache_Has c t ga
        \<and> (\<forall>q \<in> set []. \<exists>h. guidOf q = Some h \<and> cache_Has c t h)" by simp
      then show ?thesis by blast
    qed
  qed
qed

lemma selectPost_first_uncached:
  assumes "guidOf r = Some g" and "\<not> cache_Has c t g"
    and "\<forall>q \<in> set pre. \<exists>h. guidOf q = Some h \<and> cache_Has c t h"
  shows "selectPost c t (pre @ r # post) = Inr (Some r)"
  using assms
  by (induction pre) (auto simp add: guidOf_def split: option.splits any.splits)

text \<open>
  C5. When the scan of a fetch assigns a record to the slot, the slot holds that record
  after the update is handled, the record's guid is not in the skip cache at that time,
  and every record before it in the returned order has a guid that is in the cache.
\<close>

theorem fetch_selects_first_uncached:
  assumes "UpdMessage update = Some m" and "IDContains whiteList (ChatID m)"
    and "MsgCommand m = Some ''getpost''" and "GetRecords_result w = Inr records"
    and "selectPost (cache st) (now w) records = Inr (Some r)"
    and "handleUpdate whiteList st update w = Ok st' es"
  shows "currentPost st' = Some r
     \<and> (\<exists>pre post g. records = pre @ r # post \<and> guidOf r = Some g
           \<and> \<not> cache_Has (cache st) (now w) g
           \<and> (\<forall>q \<in> set pre. \<exists>h. guidOf q = Some h \<and> cache_Has (cache st) (now w) h))"
proof
  from assms show "currentPost st' = Some r"
    by (auto simp add: handle_defs split: option.splits)
  from assms(5) show "\<exists>pre post g. records = pre @ r # post \<and> guidOf r = Some g
           \<and> \<not> cache_Has (cache st) (now w) g
           \<and> (\<forall>q \<in> set pre. \<exists>h. guidOf q = Some h \<and> cache_Has (cache st) (now w) h)"
    by (rule selectPost_Some)
qed

theorem fetch_selects_first_uncached_witness:
  "UpdMessage (commandUpdate 7 ''getpost'')
      = Some \<lparr>ChatID = 7, MsgText = ''/getpost'', MsgCommand = Some ''getpost''\<rparr>
   \<and> IDContains [7] 7
   \<and> selectPost [''g1'' \<mapsto> (True, 100)] 50 [post1, post2] = Inr (Some post2)
   \<and> handleUpdate [7] \<lparr>currentPost = None, cache = [''g1'' \<mapsto> (True, 100)]\<rparr>
        (commandUpdate 7 ''getpost'') (quietWorld 50 [post1, post2])
      = Ok \<lparr>currentPost = Some post2, cache = [''g1'' \<mapsto> (True, 100)]\<rparr>
          [Log (GotCommand ''getpost''), GetRecords,
           Send \<lparr>ToChat = 7, ReplyTxt = PostText (Some (StringVal ''Second'')) (Some (StringVal ''g2'')),
                 ReplyMarkup = True\<rparr>]
   \<and> (\<exists>pre post g. [post1, post2] = pre @ post2 # post \<and> guidOf post2 = Some g
           \<and> \<not> cache_Has [''g1'' \<mapsto> (True, 100)] 50 g
           \<and> (\<forall>q \<in> set pre. \<exists>h. guidOf q = Some h \<and> cache_Has [''g1'' \<mapsto> (True, 100)] 50 h))"
proof -
  let ?m = "\<lparr>ChatID = 7, MsgText = ''/getpost'', MsgCommand = Some ''getpost''\<rparr>"
  let ?st = "\<lparr>currentPost = None, cache = [''g1'' \<mapsto> (True, 100)]\<rparr>"
  let ?w = "quietWorld 50 [post1, post2]"
  have h1: "UpdMessage (commandUpdate 7 ''getpost'') = Some ?m"
    by (simp add: commandUpdate_def)
  have h2: "IDContains [7] (ChatID ?m)" by (simp add: IDContains_def)
  have h3: "MsgCommand ?m = Some ''getpost''" by simp
  have h4: "GetRecords_result ?w = Inr [post1, post2]" by (simp add: quietWorld_def)
  have sel: "selectPost [''g1'' \<mapsto> (True, 100)] 50 [post1, post2] = Inr (Some post2)"
    by (simp add: post1_def post2_def cache_Has_def)
  have h5: "selectPost (cache ?st) (now ?w) [post1, post2] = Inr (Some post2)"
    using sel by (simp add: quietWorld_def)
  have run: "handleUpdate [7] ?st (commandUpdate 7 ''getpost'') ?w
      = Ok \<lparr>currentPost = Some post2, cache = [''g1'' \<mapsto> (True, 100)]\<rparr>
          [Log (GotCommand ''getpost''), GetRecords,
           Send \<lparr>ToChat = 7, ReplyTxt = PostText (Some (StringVal ''Second'')) (Some (StringVal ''g2'')),
                 ReplyMarkup = True\<rparr>]"
    by (simp add: handle_defs commandUpdate_def quietWorld_def IDContains_def cache_Has_def
          post1_def post2_def)
  have c: "\<exists>pre post g. [post1, post2] = pre @ post2 # post \<and> guidOf post2 = Some g
           \<and> \<not> cache_Has [''g1'' \<mapsto> (True, 100)] 50 g
           \<and> (\<forall>q \<in> set pre. \<exists>h. guidOf q = Some h \<and> cache_Has [''g1'' \<mapsto> (True, 100)] 50 h)"
    using fetch_selects_first_uncached [OF h1 h2 h3 h4 h5 run] by (simp add: quietWorld_def)
  have h2': "IDContains [7] 7" using h2 by simp
  from h1 h2' sel run c show ?thesis by (intro conjI)
qed

section \<open>A fetch while a candidate is pending\<close>

text \<open>
  Against C9 as stated: a candidate is pending and a second fetch is made. When the query
  returns no record outside the skip cache the slot keeps the pending candidate and the
  operator is shown it again; when the query returns the same record first, the slot
  holds that candidate again.
\<close>

theorem second_fetch_may_keep_candidate:
  "handleUpdate [7] \<lparr>currentPost = Some post1, cache = Map.empty\<rparr>
      (commandUpdate 7 ''getpost'') (quietWorld 0 [])
     = Ok \<lparr>currentPost = Some post1, cache = Map.empty\<rparr>
         [Log (GotCommand ''getpost''), GetRecords,
          Send \<lparr>ToChat = 7, ReplyTxt = PostText (Some (StringVal ''First'')) (Some (StringVal ''g1'')),
                ReplyMarkup = True\<rparr>]
   \<and> handleUpdate [7] \<lparr>currentPost = Some post1, cache = Map.empty\<rparr>
      (commandUpdate 7 ''getpost'') (quietWorld 0 [post1, post2])
     = Ok \<lparr>currentPost = Some post1, cache = Map.empty\<rparr>
         [Log (GotCommand ''getpost''), GetRecords,
          Send \<lparr>ToChat = 7, ReplyTxt = PostText (Some (StringVal ''First'')) (Some (StringVal ''g1'')),
                ReplyMarkup = True\<rparr>]"
  by (simp add: handle_defs commandUpdate_def quietWorld_def IDContains_def cache_Has_def post1_def)

text \<open>
  C9, amended. When a fetch is made while a candidate is pending and its scan selects a
  record (the query succeeds and some returned record is outside the skip cache before
  any record without a string guid), the loop body does exactly what it does from an
  empty slot: no warning, and the slot holds the selected record, which may be the
  pending candidate itself.
\<close>

theorem second_fetch_overwrites:
  assumes "UpdMessage update = Some m" and "IDContains whiteList (ChatID m)"
    and "MsgCommand m = Some ''getpost''" and "GetRecords_result w = Inr records"
    and "selectPost (cache st) (now w) records = Inr (Some r)"
    and "currentPost st = Some pending"
  shows "handleUpdate whiteList st update w
           = handleUpdate whiteList (st\<lparr>currentPost := None\<rparr>) update w
     \<and> (Send_err w = None \<longrightarrow>
          handleUpdate whiteList st update w
            = Ok (st\<lparr>currentPost := Some r\<rparr>)
                [Log (GotCommand ''getpost''), GetRecords,
                 Send \<lparr>ToChat = ChatID m,
                       ReplyTxt = PostText (Fields r ''Title'') (Fields r ''guid''),
                       ReplyMarkup = True\<rparr>])"
  using assms by (simp add: handle_defs split: option.splits)

theorem second_fetch_overwrites_witness:
  "UpdMessage (commandUpdate 7 ''getpost'')
      = Some \<lparr>ChatID = 7, MsgText = ''/getpost'', MsgCommand = Some ''getpost''\<rparr>
   \<and> IDContains [7] 7
   \<and> selectPost Map.empty 0 [post2, post1] = Inr (Some post2)
   \<and> handleUpdate [7] \<lparr>currentPost = Some post1, cache = Map.empty\<rparr>
        (commandUpdate 7 ''getpost'') (quietWorld 0 [post2, post1])
      = Ok \<lparr>currentPost = Some post2, cache = Map.empty\<rparr>
          [Log (GotCommand ''getpost''), GetRecords,
           Send \<lparr>ToChat = 7, ReplyTxt = PostText (Some (StringVal ''Second'')) (Some (StringVal ''g2'')),
                 ReplyMarkup = True\<rparr>]"
proof -
  let ?m = "\<lparr>ChatID = 7, MsgText = ''/getpost'', MsgCommand = Some ''getpost''\<rparr>"
  let ?st = "\<lparr>currentPost = Some post1, cache = Map.empty\<rparr>"
  let ?w = "quietWorld 0 [post2, post1]"
  have h1: "UpdMessage (commandUpdate 7 ''getpost'') = Some ?m"
    by (simp add: commandUpdate_def)
  have h2: "IDContains [7] (ChatID ?m)" by (simp add: IDContains_def)
  have h3: "MsgCommand ?m = Some ''getpost''" by simp
  have h4: "GetRecords_result ?w = Inr [post2, post1]" by (simp add: quietWorld_def)
  have sel: "selectPost Map.empty 0 [post2, post1] = Inr (Some post2)"
    by (simp add: post2_def cache_Has_def)
  have h5: "selectPost (cache ?st) (now ?w) [post2, post1] = Inr (Some post2)"
    using sel by (simp add: quietWorld_def)
  have h6: "currentPost ?st = Some post1" by simp
  have h7: "Send_err ?w = None" by (simp add: quietWorld_def)
  have run: "handleUpdate [7] ?st (commandUpdate 7 ''getpost'') ?w
      = Ok \<lparr>currentPost = Some post2, cache = Map.empty\<rparr>
          [Log (GotCommand ''getpost''), GetRecords,
           Send \<lparr>ToChat = 7, ReplyTxt = PostText (Some (StringVal ''Second'')) (Some (StringVal ''g2'')),
                 ReplyMarkup = True\<rparr>]"
    using second_fetch_overwrites [OF h1 h2 h3 h4 h5 h6, THEN conjunct2, rule_format, OF h7]
    by (simp add: post2_def)
  have h2': "IDContains [7] 7" using h2 by simp
  from h1 h2' sel run show ?thesis by (intro conjI)
qed

section \<open>The skip cache over time\<close>

text \<open>What a handled update that returns can have done to the slot and to the cache.\<close>

lemma selectPost_Some_guid:
  "selectPost c t rs = Inr (Some r) \<Longrightarrow> \<exists>g. guidOf r = Some g \<and> \<not> cache_Has c t g"
  using selectPost_Some by blast

lemma after_Ok: "after es r = Ok x es' \<Longrightarrow> \<exists>es0. r = Ok x es0 \<and> es' = es @ es0"
  by (cases r) (auto simp add: after_def)

lemma send_Ok: "send w r = Ok st' es \<Longrightarrow> \<exists>msg es0. r = Ok (st', msg) es0"
  by (cases r) (auto simp add: send_def split: option.splits)

lemma getpost_Ok:
  assumes "getpost st msg w = Ok (st', msg') es"
  shows "cache st' = cache st
     \<and> (currentPost st' = currentPost st
         \<or> (\<exists>records r. GetRecords_result w = Inr records \<and> currentPost st' = Some r
               \<and> selectPost (cache st) (now w) records = Inr (Some r)))"
  using assms by (auto simp add: getpost_def split: sum.splits option.splits)

lemma handleCommand_Ok:
  assumes "handleCommand st msg cmd w = Ok (st', msg') es"
  shows "cache st' = cache st
     \<and> (currentPost st' = currentPost st
         \<or> (\<exists>records r. GetRecords_result w = Inr records \<and> currentPost st' = Some r
               \<and> selectPost (cache st) (now w) records = Inr (Some r)))"
  using assms getpost_Ok [of st msg w st' msg' es]
  by (auto simp add: handleCommand_def split: if_splits)

lemma handleText_Ok:
  assumes "handleText st msg txt w = Ok (st', msg') es"
  shows "(currentPost st' = None \<or> currentPost st' = currentPost st)
     \<and> (cache st' = cache st
         \<or> (\<exists>post g. currentPost st = Some post \<and> guidOf post = Some g
               \<and> cache st' = cache_Set (cache st) (now w) g True))"
  using assms
  by (auto simp add: handleText_def guidOf_def split: if_splits option.splits any.splits)

lemma handleUpdate_Ok:
  assumes "handleUpdate whiteList st update w = Ok st' es"
  shows "(currentPost st' = None \<or> currentPost st' = currentPost st
          \<or> (\<exists>records r. currentPost st' = Some r
                \<and> selectPost (cache st) (now w) records = Inr (Some r)))
     \<and> (cache st' = cache st
         \<or> (\<exists>post g. currentPost st = Some post \<and> guidOf post = Some g
               \<and> cache st' = cache_Set (cache st) (now w) g True))"
proof (cases "FromChat update")
  case None
  with assms show ?thesis by (simp add: handleUpdate_def)
next
  case (Some chat)
  show ?thesis
  proof (cases "IDContains whiteList chat")
    case False
    with Some assms show ?thesis by (simp add: handleUpdate_def)
  next
    case True
    show ?thesis
    proof (cases "UpdMessage update")
      case None
      with Some True assms show ?thesis by (simp add: handleUpdate_def)
    next
      case m: (Some m)
      show ?thesis
      proof (cases "MsgCommand m")
        case None
        with Some True m assms
        have "send w (after [Log (GotText (MsgText m))]
                (handleText st (NewMessage (ChatID m)) (MsgText m) w)) = Ok st' es"
          by (simp add: handleUpdate_def)
        from send_Ok [OF this] obtain msg' e1 where
          "after [Log (GotText (MsgText m))]
             (handleText st (NewMessage (ChatID m)) (MsgText m) w) = Ok (st', msg') e1"
          by blast
        from after_Ok [OF this] obtain es0 where
          "handleText st (NewMessage (ChatID m)) (MsgText m) w = Ok (st', msg') es0"
          by blast
        from handleText_Ok [OF this] show ?thesis by blast
      next
        case (Some cmd)
        with \<open>FromChat update = Some chat\<close> True m assms
        have "send w (after [Log (GotCommand cmd)]
                (handleCommand st (NewMessage (ChatID m)) cmd w)) = Ok st' es"
          by (simp add: handleUpdate_def)
        from send_Ok [OF this] obtain msg' e1 where
          "after [Log (GotCommand cmd)]
             (handleCommand st (NewMessage (ChatID m)) cmd w) = Ok (st', msg') e1"
          by blast
        from after_Ok [OF this] obtain es0 where
          "handleCommand st (NewMessage (ChatID m)) cmd w = Ok (st', msg') es0"
          by blast
        from handleCommand_Ok [OF this] show ?thesis by blast
      qed
    qed
  qed
qed

text \<open>
  Every state the loop reaches from its start has a pending candidate with a string guid,
  if it has one.
\<close>

lemma handleUpdate_pendingHasGuid:
  assumes "pendingHasGuid st" and "handleUpdate whiteList st update w = Ok st' es"
  shows "pendingHasGuid st'"
  using handleUpdate_Ok [OF assms(2)] assms(1) selectPost_Some_guid
  by (fastforce simp add: pendingHasGuid_def split: option.splits)

lemma mainLoop_pendingHasGuid:
  "pendingHasGuid st \<Longrightarrow> mainLoop whiteList st evs = Ok st' es \<Longrightarrow> pendingHasGuid st'"
proof (induction evs arbitrary: st es)
  case Nil
  then show ?case by simp
next
  case (Cons uw evs)
  from Cons.prems(2) obtain st1 es1 where
    step: "handleUpdate whiteList st (fst uw) (snd uw) = Ok st1 es1"
    by (cases "handleUpdate whiteList st (fst uw) (snd uw)") auto
  with Cons.prems(2) obtain es2 where "mainLoop whiteList st1 evs = Ok st' es2"
    using after_Ok by fastforce
  with Cons.IH handleUpdate_pendingHasGuid [OF Cons.prems(1) step] show ?case by blast
qed

lemma reachable_pendingHasGuid:
  "mainLoop whiteList initialState evs = Ok st es \<Longrightarrow> pendingHasGuid st"
  using mainLoop_pendingHasGuid [of initialState]
  by (simp add: pendingHasGuid_def initialState_def)

text \<open>
  While the clock has not passed the expiry \<open>T\<close> of the item of \<open>g\<close>, no handled update
  changes that item or makes a record with the identifier \<open>g\<close> the pending candidate.
\<close>

lemma skipped_step:
  assumes c: "cache st g = Some (True, T)" and h: "\<not> holdsGuid st g" and t: "now w \<le> T"
    and run: "handleUpdate whiteList st update w = Ok st' es"
  shows "cache st' g = Some (True, T) \<and> \<not> holdsGuid st' g"
proof
  from handleUpdate_Ok [OF run]
  have "cache st' = cache st
         \<or> (\<exists>post g'. currentPost st = Some post \<and> guidOf post = Some g'
               \<and> cache st' = cache_Set (cache st) (now w) g' True)" by blast
  then show "cache st' g = Some (True, T)"
  proof
    assume "cache st' = cache st"
    with c show ?thesis by simp
  next
    assume "\<exists>post g'. currentPost st = Some post \<and> guidOf post = Some g'
               \<and> cache st' = cache_Set (cache st) (now w) g' True"
    then obtain post g' where p: "currentPost st = Some post" "guidOf post = Some g'"
      and c': "cache st' = cache_Set (cache st) (now w) g' True" by blast
    from p h have "g' \<noteq> g" by (auto simp add: holdsGuid_def)
    with c c' show ?thesis by (simp add: cache_Set_def)
  qed
  from c t have has: "cache_Has (cache st) (now w) g" by (simp add: cache_Has_def)
  from handleUpdate_Ok [OF run]
  have "currentPost st' = None \<or> currentPost st' = currentPost st
          \<or> (\<exists>records r. currentPost st' = Some r
                \<and> selectPost (cache st) (now w) records = Inr (Some r))" by blast
  then show "\<not> holdsGuid st' g"
  proof (elim disjE)
    assume "currentPost st' = None"
    then show ?thesis by (simp add: holdsGuid_def)
  next
    assume "currentPost st' = currentPost st"
    with h show ?thesis by (simp add: holdsGuid_def)
  next
    assume "\<exists>records r. currentPost st' = Some r
                \<and> selectPost (cache st) (now w) records = Inr (Some r)"
    then obtain records r where r: "currentPost st' = Some r"
      and sel: "selectPost (cache st) (now w) records = Inr (Some r)" by blast
    from selectPost_Some_guid [OF sel] obtain g' where
      "guidOf r = Some g'" "\<not> cache_Has (cache st) (now w) g'" by blast
    with has r show ?thesis by (auto simp add: holdsGuid_def)
  qed
qed

lemma skipped_mainLoop:
  assumes "cache st g = Some (True, T)" and "\<not> holdsGuid st g"
    and "list_all (\<lambda>uw. now (snd uw) \<le> T) evs"
    and "mainLoop whiteList st evs = Ok st' es"
  shows "cache st' g = Some (True, T) \<and> \<not> holdsGuid st' g"
  using assms
proof (induction evs arbitrary: st es)
  case Nil
  then show ?case by simp
next
  case (Cons uw evs)
  from Cons.prems(4) obtain st1 es1 where
    step: "handleUpdate whiteList st (fst uw) (snd uw) = Ok st1 es1"
    by (cases "handleUpdate whiteList st (fst uw) (snd uw)") auto
  with Cons.prems(4) obtain es2 where rest: "mainLoop whiteList st1 evs = Ok st' es2"
    using after_Ok by fastforce
  from Cons.prems(3) have t: "now (snd uw) \<le> T" and ts: "list_all (\<lambda>uw. now (snd uw) \<le> T) evs"
    by simp_all
  from skipped_step [OF Cons.prems(1) Cons.prems(2) t step]
  have "cache st1 g = Some (True, T)" "\<not> holdsGuid st1 g" by simp_all
  from Cons.IH [OF this ts rest] show ?case .
qed

text \<open>
  C8. A skip with a pending candidate of identifier \<open>g\<close>, handled at time \<open>now w\<close>, puts
  \<open>g\<close> into the skip cache with the expiry \<open>now w\<close> + 24 hours, clears the slot and makes
  no call to the backing store. After any further updates handled up to that expiry, no
  record with the identifier \<open>g\<close> is the pending candidate, and no scan made up to the
  expiry selects such a record; a scan made after the expiry finds \<open>g\<close> absent from the
  cache and selects a record with that identifier when it comes first.
\<close>

theorem skip_excludes_for_ttl:
  assumes "UpdMessage update = Some m" and "IDContains whiteList (ChatID m)"
    and "MsgCommand m = None" and "MsgText m = Text SkipButton"
    and "currentPost st = Some post" and "guidOf post = Some g" and "Send_err w = None"
  shows "\<exists>st1 es1. handleUpdate whiteList st update w = Ok st1 es1
     \<and> cache st1 = (cache st)(g \<mapsto> (True, now w + 24 * Hour))
     \<and> currentPost st1 = None
     \<and> filter isStoreCall es1 = []
     \<and> (\<forall>evs st2 es2.
           list_all (\<lambda>uw. now (snd uw) \<le> now w + 24 * Hour) evs
           \<and> mainLoop whiteList st1 evs = Ok st2 es2 \<longrightarrow>
             \<not> holdsGuid st2 g
           \<and> (\<forall>t records r. t \<le> now w + 24 * Hour \<and> guidOf r = Some g \<longrightarrow>
                  selectPost (cache st2) t records \<noteq> Inr (Some r))
           \<and> (\<forall>t r rest. now w + 24 * Hour < t \<and> guidOf r = Some g \<longrightarrow>
                  \<not> cache_Has (cache st2) t g
                  \<and> selectPost (cache st2) t (r # rest) = Inr (Some r)))"
proof -
  let ?T = "now w + 24 * Hour"
  let ?st1 = "st\<lparr>cache := cache_Set (cache st) (now w) g True, currentPost := None\<rparr>"
  let ?es1 = "[Log (GotText (MsgText m)), Send \<lparr>ToChat = ChatID m, ReplyTxt = Skipped, ReplyMarkup = False\<rparr>]"
  from assms(6) have fg: "Fields post ''guid'' = Some (StringVal g)"
    by (auto simp add: guidOf_def split: option.splits any.splits)
  from assms fg have run: "handleUpdate whiteList st update w = Ok ?st1 ?es1"
    by (simp add: handle_defs button_texts)
  have c1: "cache ?st1 = (cache st)(g \<mapsto> (True, ?T))" by (simp add: cache_Set_def TTL_def)
  have window: "\<not> holdsGuid st2 g
           \<and> (\<forall>t records r. t \<le> ?T \<and> guidOf r = Some g \<longrightarrow>
                  selectPost (cache st2) t records \<noteq> Inr (Some r))
           \<and> (\<forall>t r rest. ?T < t \<and> guidOf r = Some g \<longrightarrow>
                  \<not> cache_Has (cache st2) t g
                  \<and> selectPost (cache st2) t (r # rest) = Inr (Some r))"
    if w: "list_all (\<lambda>uw. now (snd uw) \<le> ?T) evs" and l: "mainLoop whiteList ?st1 evs = Ok st2 es2"
    for evs st2 es2
  proof -
    have "cache ?st1 g = Some (True, ?T)" using c1 by simp
    moreover have "\<not> holdsGuid ?st1 g" by (simp add: holdsGuid_def)
    ultimately have inv: "cache st2 g = Some (True, ?T)" "\<not> holdsGuid st2 g"
      using skipped_mainLoop [OF _ _ w l] by simp_all
    have a: "selectPost (cache st2) t records \<noteq> Inr (Some r)"
      if "t \<le> ?T" "guidOf r = Some g" for t records r
    proof
      assume "selectPost (cache st2) t records = Inr (Some r)"
      from selectPost_Some_guid [OF this] that(2) have "\<not> cache_Has (cache st2) t g" by simp
      with inv(1) that(1) show False by (simp add: cache_Has_def)
    qed
    have b: "\<not> cache_Has (cache st2) t g \<and> selectPost (cache st2) t (r # rest) = Inr (Some r)"
      if "?T < t" "guidOf r = Some g" for t r rest
    proof -
      from inv(1) that(1) have n: "\<not> cache_Has (cache st2) t g" by (simp add: cache_Has_def)
      from that(2) have "Fields r ''guid'' = Some (StringVal g)"
        by (auto simp add: guidOf_def split: option.splits any.splits)
      with n show ?thesis by simp
    qed
    from inv(2) a b show ?thesis by blast
  qed
  show ?thesis
  proof (intro exI conjI)
    show "handleUpdate whiteList st update w = Ok ?st1 ?es1" by (rule run)
    show "cache ?st1 = (cache st)(g \<mapsto> (True, ?T))" by (rule c1)
    show "currentPost ?st1 = None" by simp
    show "filter isStoreCall ?es1 = []" by simp
    show "\<forall>evs st2 es2.
           list_all (\<lambda>uw. now (snd uw) \<le> ?T) evs
           \<and> mainLoop whiteList ?st1 evs = Ok st2 es2 \<longrightarrow>
             \<not> holdsGuid st2 g
           \<and> (\<forall>t records r. t \<le> ?T \<and> guidOf r = Some g \<longrightarrow>
                  selectPost (cache st2) t records \<noteq> Inr (Some r))
           \<and> (\<forall>t r rest. ?T < t \<and> guidOf r = Some g \<longrightarrow>
                  \<not> cache_Has (cache st2) t g
                  \<and> selectPost (cache st2) t (r # rest) = Inr (Some r))"
      using window by blast
  qed
qed

theorem skip_excludes_for_ttl_witness:
  "UpdMessage (textUpdate 7 (Text SkipButton))
      = Some \<lparr>ChatID = 7, MsgText = Text SkipButton, MsgCommand = None\<rparr>
   \<and> IDContains [7] 7 \<and> guidOf post1 = Some ''g1''
   \<and> handleUpdate [7] \<lparr>currentPost = Some post1, cache = Map.empty\<rparr>
        (textUpdate 7 (Text SkipButton)) (quietWorld 1000 [])
      = Ok \<lparr>currentPost = None, cache = [''g1'' \<mapsto> (True, 1000 + 24 * Hour)]\<rparr>
          [Log (GotText (Text SkipButton)),
           Send \<lparr>ToChat = 7, ReplyTxt = Skipped, ReplyMarkup = False\<rparr>]
   \<and> mainLoop [7] \<lparr>currentPost = None, cache = [''g1'' \<mapsto> (True, 1000 + 24 * Hour)]\<rparr>
        [(commandUpdate 7 ''getpost'', quietWorld 2000 [post1, post2])]
      = Ok \<lparr>currentPost = Some post2, cache = [''g1'' \<mapsto> (True, 1000 + 24 * Hour)]\<rparr>
          [Log (GotCommand ''getpost''), GetRecords,
           Send \<lparr>ToChat = 7, ReplyTxt = PostText (Some (StringVal ''Second'')) (Some (StringVal ''g2'')),
                 ReplyMarkup = True\<rparr>]
   \<and> \<not> holdsGuid \<lparr>currentPost = Some post2, cache = [''g1'' \<mapsto> (True, 1000 + 24 * Hour)]\<rparr> ''g1''
   \<and> selectPost [''g1'' \<mapsto> (True, 1000 + 24 * Hour)] (1001 + 24 * Hour) [post1, post2]
      = Inr (Some post1)"
proof -
  let ?m = "\<lparr>ChatID = 7, MsgText = Text SkipButton, MsgCommand = None\<rparr>"
  let ?st = "\<lparr>currentPost = Some post1, cache = Map.empty\<rparr>"
  let ?w = "quietWorld 1000 []"
  let ?c = "[''g1'' \<mapsto> (True, 1000 + 24 * Hour)]"
  let ?st1 = "\<lparr>currentPost = None, cache = ?c\<rparr>"
  let ?st2 = "\<lparr>currentPost = Some post2, cache = ?c\<rparr>"
  let ?evs = "[(commandUpdate 7 ''getpost'', quietWorld 2000 [post1, post2])]"
  let ?es2 = "[Log (GotCommand ''getpost''), GetRecords,
           Send \<lparr>ToChat = 7, ReplyTxt = PostText (Some (StringVal ''Second'')) (Some (StringVal ''g2'')),
                 ReplyMarkup = True\<rparr>]"
  have h1: "UpdMessage (textUpdate 7 (Text SkipButton)) = Some ?m" by (simp add: textUpdate_def)
  have h2: "IDContains [7] (ChatID ?m)" by (simp add: IDContains_def)
  have h3: "MsgCommand ?m = None" by simp
  have h4: "MsgText ?m = Text SkipButton" by simp
  have h5: "currentPost ?st = Some post1" by simp
  have h6: "guidOf post1 = Some ''g1''" by (simp add: guidOf_def post1_def)
  have h7: "Send_err ?w = None" by (simp add: quietWorld_def)
  have run: "handleUpdate [7] ?st (textUpdate 7 (Text SkipButton)) ?w
      = Ok ?st1 [Log (GotText (Text SkipButton)),
           Send \<lparr>ToChat = 7, ReplyTxt = Skipped, ReplyMarkup = False\<rparr>]"
    by (simp add: handle_defs textUpdate_def quietWorld_def IDContains_def button_texts
          post1_def cache_Set_def TTL_def)
  have loop: "mainLoop [7] ?st1 ?evs = Ok ?st2 ?es2"
    by (simp add: handle_defs commandUpdate_def quietWorld_def IDContains_def cache_Has_def
          post1_def post2_def Hour_def)
  have inwin: "list_all (\<lambda>uw. now (snd uw) \<le> now ?w + 24 * Hour) ?evs"
    by (simp add: quietWorld_def Hour_def)
  from skip_excludes_for_ttl [OF h1 h2 h3 h4 h5 h6 h7] obtain st1 es1 where
    r: "handleUpdate [7] ?st (textUpdate 7 (Text SkipButton)) ?w = Ok st1 es1"
    and win: "\<forall>evs st2 es2.
           list_all (\<lambda>uw. now (snd uw) \<le> now ?w + 24 * Hour) evs
           \<and> mainLoop [7] st1 evs = Ok st2 es2 \<longrightarrow>
             \<not> holdsGuid st2 ''g1''
           \<and> (\<forall>t records r. t \<le> now ?w + 24 * Hour \<and> guidOf r = Some ''g1'' \<longrightarrow>
                  selectPost (cache st2) t records \<noteq> Inr (Some r))
           \<and> (\<forall>t r rest. now ?w + 24 * Hour < t \<and> guidOf r = Some ''g1'' \<longrightarrow>
                  \<not> cache_Has (cache st2) t ''g1''
                  \<and> selectPost (cache st2) t (r # rest) = Inr (Some r))"
    by blast
  from r run have "st1 = ?st1" by simp
  with win inwin loop have
    a: "\<not> holdsGuid ?st2 ''g1''"
    and b: "\<forall>t r rest. now ?w + 24 * Hour < t \<and> guidOf r = Some ''g1'' \<longrightarrow>
                  selectPost (cache ?st2) t (r # rest) = Inr (Some r)"
    by blast+
  have "now ?w + 24 * Hour < 1001 + 24 * Hour" by (simp add: quietWorld_def)
  with b h6 have "selectPost (cache ?st2) (1001 + 24 * Hour) (post1 # [post2]) = Inr (Some post1)"
    by blast
  then have c: "selectPost ?c (1001 + 24 * Hour) [post1, post2] = Inr (Some post1)"
    by (simp only: State.simps)
  have h2': "IDContains [7] 7" using h2 by simp
  from h1 h2' h6 run loop a c show ?thesis by (intro conjI)
qed

section \<open>The allow-list read from the environment\<close>

text \<open>\<open>Split\<close> returns the pieces of a comma-separated value, at least one.\<close>

lemma Split_from_nonempty: "Split_from sep cur s \<noteq> []"
  by (induction s arbitrary: cur) auto

lemma Split_from_piece:
  "sep \<notin> set p \<Longrightarrow> Split_from sep cur (p @ rest) = Split_from sep (cur @ p) rest"
  by (induction p arbitrary: cur) auto

lemma Split_Join:
  "ps \<noteq> [] \<Longrightarrow> \<forall>p \<in> set ps. sep \<notin> set p \<Longrightarrow> Split (Join ps sep) sep = ps"
proof (induction ps sep rule: Join.induct)
  case (1 sep)
  then show ?case by simp
next
  case (2 p sep)
  then show ?case
    using Split_from_piece [of sep p "[]" "[]"] by (simp add: Split_def)
next
  case (3 p q ps sep)
  then have "Split_from sep [] (Join (q # ps) sep) = q # ps" by (simp add: Split_def)
  with 3 show ?case
    using Split_from_piece [of sep p "[]" "sep # Join (q # ps) sep"] by (simp add: Split_def)
qed

lemma whiteList_loop_all:
  "map ParseInt ss = map Inr ids \<Longrightarrow> whiteList_loop ss acc = Inr (acc @ ids)"
proof (induction ss arbitrary: acc ids)
  case Nil
  then show ?case by simp
next
  case (Cons s ss)
  then obtain i ids' where ids: "ids = i # ids'" and p: "ParseInt s = Inr i"
    and rest: "map ParseInt ss = map Inr ids'" by (cases ids) auto
  from Cons.IH [OF rest, of "acc @ [i]"] p ids show ?case by simp
qed

text \<open>
  C10. When every comma-separated piece of TELEGRAM_WHITELIST parses, to the n identifiers
  \<open>ids\<close>, \<open>env.New\<close> returns the allow-list of length 2n that is n zeros followed by
  \<open>ids\<close>; n is at least 1, so the chat identity 0 is in the allow-list.
\<close>

theorem whitelist_has_leading_zeros:
  assumes "getenv ''TELEGRAM_TOKEN'' \<noteq> []" and "getenv ''AIRTABLE_API_KEY'' \<noteq> []"
    and "getenv ''AIRTABLE_BASE_ID'' \<noteq> []" and "getenv ''AIRTABLE_TABLE_NAME'' \<noteq> []"
    and "map ParseInt (Split (getenv ''TELEGRAM_WHITELIST'') (CHR '','')) = map Inr ids"
  shows "\<exists>e. env_New getenv = Inr e
     \<and> TelegramWhiteList e = replicate (length ids) 0 @ ids
     \<and> length (TelegramWhiteList e) = 2 * length ids
     \<and> 0 < length ids
     \<and> IDContains (TelegramWhiteList e) 0"
proof -
  let ?ss = "Split (getenv ''TELEGRAM_WHITELIST'') (CHR '','')"
  from assms(5) have len: "length ?ss = length ids"
    using map_eq_imp_length_eq by blast
  have "?ss \<noteq> []" by (simp add: Split_def Split_from_nonempty)
  with len have pos: "0 < length ids" by auto
  have loop: "whiteList_loop ?ss (replicate (length ?ss) 0) = Inr (replicate (length ids) 0 @ ids)"
    using whiteList_loop_all [OF assms(5)] len by simp
  from pos have "(0::int) \<in> set (replicate (length ids) 0 @ ids)" by simp
  with assms(1-4) loop pos show ?thesis
    by (simp add: env_New_def Let_def IDContains_def)
qed

theorem whitelist_has_leading_zeros_witness:
  "map ParseInt (Split (getenv1 ''TELEGRAM_WHITELIST'') (CHR '','')) = map Inr [12, -7]
   \<and> (\<exists>e. env_New getenv1 = Inr e \<and> TelegramWhiteList e = [0, 0, 12, -7]
          \<and> IDContains (TelegramWhiteList e) 0)"
proof -
  have p: "map ParseInt (Split (getenv1 ''TELEGRAM_WHITELIST'') (CHR '','')) = map Inr [12, -7]"
    by (simp add: getenv1_def Split_def ParseInt_def ParseUint_def isDigit_def digitVal_def
          maxUint64_def)
  have e: "getenv1 ''TELEGRAM_TOKEN'' \<noteq> []" "getenv1 ''AIRTABLE_API_KEY'' \<noteq> []"
    "getenv1 ''AIRTABLE_BASE_ID'' \<noteq> []" "getenv1 ''AIRTABLE_TABLE_NAME'' \<noteq> []"
    by (simp_all add: getenv1_def)
  from whitelist_has_leading_zeros [OF e p]
  have "\<exists>e. env_New getenv1 = Inr e \<and> TelegramWhiteList e = [0, 0, 12, -7]
          \<and> IDContains (TelegramWhiteList e) 0"
    by (auto simp add: numeral_2_eq_2)
  with p show ?thesis by (intro conjI)
qed

end
